theory Spec2Isabelle
  imports Main
begin

section \<open>Data model of \<^verbatim>\<open>src/api/index.py\<close>\<close>

text \<open>
  A family member is a JSON object with the keys \<^verbatim>\<open>id\<close>, \<^verbatim>\<open>name\<close>, \<^verbatim>\<open>anggota\<close>,
  \<^verbatim>\<open>parent1_id\<close> and \<^verbatim>\<open>parent2_id\<close>. The key \<^verbatim>\<open>id\<close> is written \<open>mem_id\<close>
  (\<open>id\<close> is the identity function of HOL). The keys \<^verbatim>\<open>id\<close> and \<^verbatim>\<open>name\<close> are read
  as \<^verbatim>\<open>member["id"]\<close> and \<^verbatim>\<open>member["name"]\<close>; they are always there and hold an
  integer and a string.

  The source reads the two parent keys only through \<^verbatim>\<open>.get("parent1_id")\<close> or behind
  an \<^verbatim>\<open>in\<close> test followed by a truth test, where an absent key and a key holding
  \<^verbatim>\<open>None\<close> give the same value; both are \<open>None\<close> in the two parent fields.

  The key \<^verbatim>\<open>anggota\<close> is read through \<^verbatim>\<open>.get("anggota", "")\<close>, whose default stands
  in for an absent key only: a key that is there and holds \<^verbatim>\<open>None\<close> is returned as
  \<^verbatim>\<open>None\<close>. The field keeps the three cases apart: \<open>None\<close> is the absent key,
  \<open>Some JNull\<close> the key holding \<^verbatim>\<open>None\<close>, \<open>Some (JText g)\<close> the key holding the
  string \<open>g\<close>.
\<close>

datatype json_text = JNull | JText string

record member =
  mem_id :: int
  name :: string
  anggota :: "json_text option"
  parent1_id :: "int option"
  parent2_id :: "int option"

text \<open>The four labels the source writes into \<^verbatim>\<open>relationships\<close>.\<close>

datatype relationship = Anak | Cucu | Keponakan | Saudara

section \<open>\<^verbatim>\<open>calculate_relationship\<close>\<close>

text \<open>
  \<^verbatim>\<open>id_to_member = {member["id"]: member for member in family}\<close>: the comprehension
  stores the members one after the other under their ids.
\<close>

definition id_to_member :: "member list \<Rightarrow> (int \<rightharpoonup> member)" where
  "id_to_member family = fold (\<lambda>member d. d(mem_id member \<mapsto> member)) family Map.empty"

text \<open>
  \<^verbatim>\<open>id_to_member.get(k, {}).get("parent1_id")\<close> and the same for \<^verbatim>\<open>parent2_id\<close>, where
  \<open>k\<close> is an id or \<^verbatim>\<open>None\<close>. The ids of the members are integers, so \<^verbatim>\<open>None\<close> is no key
  of the index and the lookup falls back on the empty dictionary.
\<close>

definition get_parent1_id :: "(int \<rightharpoonup> member) \<Rightarrow> int option \<Rightarrow> int option" where
  "get_parent1_id idx k =
     (case k of None \<Rightarrow> None
      | Some p \<Rightarrow> (case idx p of None \<Rightarrow> None | Some q \<Rightarrow> parent1_id q))"

definition get_parent2_id :: "(int \<rightharpoonup> member) \<Rightarrow> int option \<Rightarrow> int option" where
  "get_parent2_id idx k =
     (case k of None \<Rightarrow> None
      | Some p \<Rightarrow> (case idx p of None \<Rightarrow> None | Some q \<Rightarrow> parent2_id q))"

text \<open>Python's truth value of an id or \<^verbatim>\<open>None\<close>: \<^verbatim>\<open>None\<close> and \<^verbatim>\<open>0\<close> are false.\<close>

fun truthy :: "int option \<Rightarrow> bool" where
  "truthy None = False"
| "truthy (Some p) = (p \<noteq> 0)"

text \<open>The conditions of the \<^verbatim>\<open>if\<close>/\<^verbatim>\<open>elif\<close> chain, in the order of the source.\<close>

definition is_anak :: "int \<Rightarrow> member \<Rightarrow> bool" where
  "is_anak member_id m \<longleftrightarrow> Some member_id \<in> set [parent1_id m, parent2_id m]"

definition is_cucu :: "(int \<rightharpoonup> member) \<Rightarrow> int \<Rightarrow> member \<Rightarrow> bool" where
  "is_cucu idx member_id m \<longleftrightarrow>
     list_ex (\<lambda>parent_id. get_parent1_id idx parent_id = Some member_id)
       (filter truthy [parent1_id m, parent2_id m])"

definition is_keponakan :: "(int \<rightharpoonup> member) \<Rightarrow> int \<Rightarrow> member \<Rightarrow> bool" where
  "is_keponakan idx member_id m \<longleftrightarrow>
     Some member_id \<in> set [get_parent1_id idx (parent1_id m), get_parent2_id idx (parent1_id m)]"

definition is_saudara :: "(int \<rightharpoonup> member) \<Rightarrow> int \<Rightarrow> member \<Rightarrow> bool" where
  "is_saudara idx member_id m \<longleftrightarrow>
     truthy (parent1_id m) \<and>
     get_parent1_id idx (parent1_id m) = get_parent1_id idx (Some member_id)"

text \<open>The body of the loop over \<^verbatim>\<open>family\<close>, as an update of \<^verbatim>\<open>relationships\<close>.\<close>

definition relate ::
  "(int \<rightharpoonup> member) \<Rightarrow> int \<Rightarrow> member \<Rightarrow> (int \<rightharpoonup> relationship) \<Rightarrow> (int \<rightharpoonup> relationship)" where
  "relate idx member_id m relationships =
     (if mem_id m = member_id then relationships
      else if is_anak member_id m then relationships(mem_id m \<mapsto> Anak)
      else if is_cucu idx member_id m then relationships(mem_id m \<mapsto> Cucu)
      else if is_keponakan idx member_id m then relationships(mem_id m \<mapsto> Keponakan)
      else if is_saudara idx member_id m then relationships(mem_id m \<mapsto> Saudara)
      else relationships)"

definition calculate_relationship :: "member list \<Rightarrow> int \<Rightarrow> (int \<rightharpoonup> relationship)" where
  "calculate_relationship family member_id =
     fold (relate (id_to_member family) member_id) family Map.empty"

text \<open>
  The label the loop body writes for one member, if any: the chain of \<open>relate\<close> without
  the mapping. It is used to state what the loop does at one id.
\<close>

definition matched :: "(int \<rightharpoonup> member) \<Rightarrow> int \<Rightarrow> member \<Rightarrow> relationship option" where
  "matched idx member_id m =
     (if mem_id m = member_id then None
      else if is_anak member_id m then Some Anak
      else if is_cucu idx member_id m then Some Cucu
      else if is_keponakan idx member_id m then Some Keponakan
      else if is_saudara idx member_id m then Some Saudara
      else None)"

section \<open>\<^verbatim>\<open>generate_family_tree\<close>\<close>

text \<open>\<^verbatim>\<open>str\<close> of a Python integer: decimal digits, with a minus sign below zero.\<close>

definition digit_char :: "nat \<Rightarrow> char" where
  "digit_char d = ''0123456789'' ! d"

fun str_nat :: "nat \<Rightarrow> string" where
  "str_nat n = (if n < 10 then [digit_char n] else str_nat (n div 10) @ [digit_char (n mod 10)])"

declare str_nat.simps [simp del]

definition str_int :: "int \<Rightarrow> string" where
  "str_int i = (if i < 0 then CHR ''-'' # str_nat (nat (- i)) else str_nat (nat i))"

text \<open>
  The body of the \<^verbatim>\<open>Digraph\<close>: one statement per call of \<^verbatim>\<open>graph.attr\<close>,
  \<^verbatim>\<open>graph.node\<close> (name, label, shape) and \<^verbatim>\<open>graph.edge\<close> (tail, head), in the order of
  the calls.
\<close>

datatype stmt =
  Attr string string
  | Node string string string
  | Edge string string

text \<open>What an f-string prints for a string or \<^verbatim>\<open>None\<close>.\<close>

fun py_str :: "json_text \<Rightarrow> string" where
  "py_str JNull = ''None''"
| "py_str (JText g) = g"

text \<open>
  \<^verbatim>\<open>f'{member["name"]}\n({member.get("anggota", "")})'\<close>: the default \<^verbatim>\<open>""\<close> is
  printed for an absent key, the value of the key otherwise.
\<close>

definition node_label :: "member \<Rightarrow> string" where
  "node_label m =
     name m @ [CHR 0x0A] @ ''('' @
       (case anggota m of None \<Rightarrow> [] | Some v \<Rightarrow> py_str v) @ '')''"

text \<open>The body of the first loop.\<close>

definition add_node :: "member \<Rightarrow> stmt list \<Rightarrow> stmt list" where
  "add_node m graph = graph @ [Node (str_int (mem_id m)) (node_label m) ''box'']"

text \<open>
  One \<^verbatim>\<open>if\<close> of the second loop: \<^verbatim>\<open>"parent1_id" in member and member["parent1_id"]\<close>
  asks that the key is there and its value is true.
\<close>

definition add_parent_edge :: "int option \<Rightarrow> member \<Rightarrow> stmt list \<Rightarrow> stmt list" where
  "add_parent_edge parent m graph =
     (case parent of
        None \<Rightarrow> graph
      | Some p \<Rightarrow> if truthy (Some p) then graph @ [Edge (str_int p) (str_int (mem_id m))]
                  else graph)"

text \<open>The body of the second loop.\<close>

definition add_edges :: "member \<Rightarrow> stmt list \<Rightarrow> stmt list" where
  "add_edges m graph = add_parent_edge (parent2_id m) m (add_parent_edge (parent1_id m) m graph)"

text \<open>
  The graph that \<^verbatim>\<open>generate_family_tree\<close> builds and hands to \<^verbatim>\<open>graph.render\<close>. The
  rendering itself, the scratch directory and the file name belong to Graphviz and the
  operating system and are not part of the model.
\<close>

definition generate_family_tree_graph :: "member list \<Rightarrow> stmt list" where
  "generate_family_tree_graph family =
     fold add_edges family (fold add_node family [Attr ''rankdir'' ''TB''])"

fun is_node :: "stmt \<Rightarrow> bool" where
  "is_node (Node _ _ _) = True"
| "is_node _ = False"

fun is_edge :: "stmt \<Rightarrow> bool" where
  "is_edge (Edge _ _) = True"
| "is_edge _ = False"

section \<open>The store and \<^verbatim>\<open>delete_family_member\<close>\<close>

text \<open>
  The value under the key \<^verbatim>\<open>family\<close> of the remote database: \<open>None\<close> when nothing is
  stored, the member list otherwise. \<^verbatim>\<open>load_data\<close> returns its list, \<^verbatim>\<open>save_data\<close>
  replaces the stored value.
\<close>

type_synonym db = "member list option"

definition load_data :: "db \<Rightarrow> member list" where
  "load_data ref =
     (case ref of None \<Rightarrow> []
      | Some family_data \<Rightarrow> if family_data \<noteq> [] then family_data else [])"

definition save_data :: "member list \<Rightarrow> db \<Rightarrow> db" where
  "save_data family ref = Some family"

text \<open>A JSON reply with one key (\<^verbatim>\<open>error\<close> or \<^verbatim>\<open>message\<close>) and the HTTP status.\<close>

datatype response = Response string string nat

text \<open>The handler of \<^verbatim>\<open>DELETE /family/<int:member_id>\<close>: the reply and the store after it.\<close>

definition delete_family_member :: "int \<Rightarrow> db \<Rightarrow> response \<times> db" where
  "delete_family_member member_id ref =
     (let family = load_data ref;
          updated_family = filter (\<lambda>member. mem_id member \<noteq> member_id) family
      in if length updated_family = length family
         then (Response ''error'' ''Member not found'' 404, ref)
         else (Response ''message'' ''Member deleted successfully'' 200,
               save_data updated_family ref))"

section \<open>Concrete members\<close>

text \<open>The members of the scenarios A, B and C of the specification.\<close>

definition member_A :: member where
  "member_A = \<lparr>mem_id = 1, name = ''A'', anggota = Some (JText ''G''),
                parent1_id = None, parent2_id = None\<rparr>"

definition member_B :: member where
  "member_B = \<lparr>mem_id = 2, name = ''B'', anggota = Some (JText ''G''),
                parent1_id = Some 1, parent2_id = None\<rparr>"

definition member_C :: member where
  "member_C = \<lparr>mem_id = 3, name = ''C'', anggota = Some (JText ''G''),
                parent1_id = Some 1, parent2_id = None\<rparr>"

text \<open>Member 3 of scenario B, a child of member 2.\<close>

definition member_D :: member where
  "member_D = \<lparr>mem_id = 3, name = ''C'', anggota = Some (JText ''G''),
                parent1_id = Some 2, parent2_id = None\<rparr>"

text \<open>A child of member 1 whose second parent is member 2.\<close>

definition member_E :: member where
  "member_E = \<lparr>mem_id = 4, name = ''E'', anggota = Some (JText ''G''),
                parent1_id = Some 1, parent2_id = Some 2\<rparr>"

text \<open>Member 2 without parents.\<close>

definition member_B0 :: member where
  "member_B0 = \<lparr>mem_id = 2, name = ''B'', anggota = Some (JText ''G''),
                 parent1_id = None, parent2_id = None\<rparr>"

text \<open>A second member with the id 1, whose first parent is 7.\<close>

definition member_A2 :: member where
  "member_A2 = \<lparr>mem_id = 1, name = ''A2'', anggota = Some (JText ''G''),
                 parent1_id = Some 7, parent2_id = None\<rparr>"

text \<open>A second member with the id 3, without parents.\<close>

definition member_C0 :: member where
  "member_C0 = \<lparr>mem_id = 3, name = ''C2'', anggota = Some (JText ''G''),
                 parent1_id = None, parent2_id = None\<rparr>"

text \<open>A member whose group key holds \<^verbatim>\<open>None\<close>, and one without the group key.\<close>

definition member_N :: member where
  "member_N = \<lparr>mem_id = 8, name = ''N'', anggota = Some JNull,
                parent1_id = None, parent2_id = None\<rparr>"

definition member_M :: member where
  "member_M = \<lparr>mem_id = 9, name = ''M'', anggota = None,
                parent1_id = None, parent2_id = None\<rparr>"

text \<open>A root with the id 5, its child with the id 0, and a child of that one.\<close>

definition member_R :: member where
  "member_R = \<lparr>mem_id = 5, name = ''R'', anggota = Some (JText ''G''),
                parent1_id = None, parent2_id = None\<rparr>"

definition member_Z :: member where
  "member_Z = \<lparr>mem_id = 0, name = ''Z'', anggota = Some (JText ''G''),
                parent1_id = Some 5, parent2_id = None\<rparr>"

definition member_Y :: member where
  "member_Y = \<lparr>mem_id = 7, name = ''Y'', anggota = Some (JText ''G''),
                parent1_id = Some 0, parent2_id = None\<rparr>"

lemmas member_defs =
  member_A_def member_B_def member_C_def member_D_def member_E_def member_B0_def
  member_A2_def member_C0_def member_R_def member_Z_def member_Y_def member_N_def member_M_def

lemmas rule_defs =
  is_anak_def is_cucu_def is_keponakan_def is_saudara_def get_parent1_id_def get_parent2_id_def

section \<open>The index\<close>

lemma id_to_member_fold:
  "fold (\<lambda>member d. d(mem_id member \<mapsto> member)) family d i =
     (case find (\<lambda>m. mem_id m = i) (rev family) of None \<Rightarrow> d i | Some m \<Rightarrow> Some m)"
  by (induction family rule: rev_induct) auto

lemma id_to_member_find_rev:
  "id_to_member family i = find (\<lambda>m. mem_id m = i) (rev family)"
  by (simp add: id_to_member_def id_to_member_fold split: option.splits)

text \<open>
  C4 (as stated). With two members of id 1 in the list, the specification wants the
  index to hold the first of them. The comprehension overwrites the entry, so the index
  holds the second one.
\<close>

theorem index_first_occurrence_counterexample:
  "find (\<lambda>m. mem_id m = 1) [member_A, member_A2] = Some member_A \<and>
   id_to_member [member_A, member_A2] 1 \<noteq> Some member_A"
  by (simp add: id_to_member_def member_defs)

text \<open>
  C4 (amended). For every member list and every id, the index maps the id to the last
  member of the list with that id (to nothing when there is none), and the parent
  lookups of the rules read the parent ids of that last member.
\<close>

theorem id_to_member_last_occurrence:
  "id_to_member family i = find (\<lambda>m. mem_id m = i) (rev family) \<and>
   get_parent1_id (id_to_member family) (Some i) =
     (case find (\<lambda>m. mem_id m = i) (rev family) of None \<Rightarrow> None | Some q \<Rightarrow> parent1_id q) \<and>
   get_parent2_id (id_to_member family) (Some i) =
     (case find (\<lambda>m. mem_id m = i) (rev family) of None \<Rightarrow> None | Some q \<Rightarrow> parent2_id q)"
  by (simp add: id_to_member_find_rev get_parent1_id_def get_parent2_id_def)

section \<open>The labels\<close>

lemma relate_matched:
  "relate idx s m r = (case matched idx s m of None \<Rightarrow> r | Some l \<Rightarrow> r(mem_id m \<mapsto> l))"
  by (simp add: relate_def matched_def)

text \<open>
  The loop at an id that only one member value of the list carries: the entry is the
  label of that member, if a rule matches it.
\<close>

lemma fold_relate_unique:
  "\<forall>m' \<in> set xs. mem_id m' = mem_id m \<longrightarrow> m' = m \<Longrightarrow>
   fold (relate idx s) xs r (mem_id m) =
     (if m \<in> set xs then (case matched idx s m of None \<Rightarrow> r (mem_id m) | Some l \<Rightarrow> Some l)
      else r (mem_id m))"
  by (induction xs arbitrary: r) (auto simp: relate_matched split: option.splits)

lemma calculate_relationship_unique:
  assumes "m \<in> set family" and "\<forall>m' \<in> set family. mem_id m' = mem_id m \<longrightarrow> m' = m"
  shows "calculate_relationship family s (mem_id m) = matched (id_to_member family) s m"
  using assms by (simp add: calculate_relationship_def fold_relate_unique split: option.splits)

lemma is_cucu_iff:
  "is_cucu idx s m \<longleftrightarrow>
     (\<exists>p q. Some p \<in> {parent1_id m, parent2_id m} \<and> p \<noteq> 0 \<and>
            idx p = Some q \<and> parent1_id q = Some s)"
  by (auto simp: is_cucu_def get_parent1_id_def split: option.splits)

text \<open>
  C1. For the members A (id 1), B (id 2, first parent 1) and C (id 3, first parent 1)
  the specification expects \<open>{3: Sibling}\<close> for subject 2. The source compares the first
  parent of C's first parent (absent for A) with the first parent of the subject (1), so
  no rule matches and the result is the empty mapping.
\<close>

theorem scenario_C_yields_empty:
  "calculate_relationship [member_A, member_B, member_C] 2 = Map.empty"
  by (simp add: calculate_relationship_def id_to_member_def relate_def rule_defs member_defs)

text \<open>
  C2. The specification wants the Sibling rule to fail when a looked-up member has no
  first parent. For the members 1 and 2 without parents and member 3 with first parent 1,
  both lookups of the rule give \<^verbatim>\<open>None\<close>, the comparison \<^verbatim>\<open>None == None\<close> holds, and
  member 3 is labeled \<open>Saudara\<close> for subject 2.
\<close>

theorem saudara_matches_absent_parents:
  "id_to_member [member_A, member_B0, member_C] 1 = Some member_A \<and>
   parent1_id member_A = None \<and>
   id_to_member [member_A, member_B0, member_C] 2 = Some member_B0 \<and>
   parent1_id member_B0 = None \<and>
   calculate_relationship [member_A, member_B0, member_C] 2 = [3 \<mapsto> Saudara]"
  by (simp add: calculate_relationship_def id_to_member_def relate_def rule_defs member_defs)

text \<open>
  C3. The specification wants the empty mapping for a subject id that no member has.
  For the members 1 (no parents) and 3 (first parent 1) and the unknown subject 99 the
  result holds member 3 with the label \<open>Saudara\<close>.
\<close>

theorem unknown_subject_yields_saudara:
  "99 \<notin> mem_id ` set [member_A, member_C] \<and>
   calculate_relationship [member_A, member_C] 99 = [3 \<mapsto> Saudara]"
  by (simp add: calculate_relationship_def id_to_member_def relate_def rule_defs member_defs)

text \<open>
  C5 (as stated). With two members of id 3, the first a child of the subject 1 and the
  second without parents, the second matches no rule, yet the result holds its id with
  the label \<open>Anak\<close>: the mapping is keyed by id.
\<close>

theorem duplicate_id_label_counterexample:
  "mem_id member_C0 \<noteq> 1 \<and>
   \<not> is_anak 1 member_C0 \<and>
   \<not> is_cucu (id_to_member [member_C, member_C0]) 1 member_C0 \<and>
   \<not> is_keponakan (id_to_member [member_C, member_C0]) 1 member_C0 \<and>
   \<not> is_saudara (id_to_member [member_C, member_C0]) 1 member_C0 \<and>
   calculate_relationship [member_C, member_C0] 1 (mem_id member_C0) = Some Anak"
  by (simp add: calculate_relationship_def id_to_member_def relate_def rule_defs member_defs)

text \<open>
  C5 (amended). For every member list, subject id and member \<open>m\<close> of the list whose id
  differs from the subject id and is carried by no other member of the list, the result
  maps the id of \<open>m\<close> to the label of the first rule that matches \<open>m\<close>, in the order
  Child, Grandchild, Niece/Nephew, Sibling, and to nothing when no rule matches.
\<close>

theorem label_by_priority:
  assumes "m \<in> set family" and "mem_id m \<noteq> member_id"
    and "\<forall>m' \<in> set family. mem_id m' = mem_id m \<longrightarrow> m' = m"
  shows "calculate_relationship family member_id (mem_id m) =
     (if is_anak member_id m then Some Anak
      else if is_cucu (id_to_member family) member_id m then Some Cucu
      else if is_keponakan (id_to_member family) member_id m then Some Keponakan
      else if is_saudara (id_to_member family) member_id m then Some Saudara
      else None)"
  using assms by (simp add: calculate_relationship_unique matched_def)

text \<open>
  Member 4 is a child of the subject 1 and, through its second parent 2, also matches
  the Grandchild rule; it receives the label \<open>Anak\<close> only.
\<close>

theorem label_by_priority_witness:
  "member_E \<in> set [member_A, member_B, member_E] \<and> mem_id member_E \<noteq> 1 \<and>
   is_anak 1 member_E \<and>
   is_cucu (id_to_member [member_A, member_B, member_E]) 1 member_E \<and>
   calculate_relationship [member_A, member_B, member_E] 1 (mem_id member_E) = Some Anak"
proof -
  have h1: "member_E \<in> set [member_A, member_B, member_E]" by simp
  have h2: "mem_id member_E \<noteq> 1" by (simp add: member_defs)
  have h3: "\<forall>m' \<in> set [member_A, member_B, member_E]. mem_id m' = mem_id member_E \<longrightarrow> m' = member_E"
    by (simp add: member_defs)
  show ?thesis
    using label_by_priority [OF h1 h2 h3] h2
    by (simp add: id_to_member_def rule_defs member_defs)
qed

text \<open>
  C6 (as stated). Member 7 has the first parent 0, the index resolves 0 to a member
  whose first parent is the subject 5, and member 7 is no child of 5. The Grandchild
  rule skips the parent id 0, which is false in Python, and member 7 receives the label
  \<open>Keponakan\<close> from the next rule.
\<close>

theorem cucu_zero_parent_counterexample:
  "parent1_id member_Y = Some 0 \<and>
   id_to_member [member_R, member_Z, member_Y] 0 = Some member_Z \<and>
   parent1_id member_Z = Some 5 \<and>
   calculate_relationship [member_R, member_Z, member_Y] 5 (mem_id member_Y) = Some Keponakan"
  by (simp add: calculate_relationship_def id_to_member_def relate_def rule_defs member_defs)

text \<open>
  C6 (amended). For every member \<open>m\<close> of the list other than the subject, whose id no
  other member carries and which is not labeled Child, the result labels \<open>m\<close> as
  Grandchild if and only if one of its two parent ids that is neither absent nor 0
  resolves in the index to a member whose \<open>parent1_id\<close> is the subject id. The
  Grandchild rule does not depend on the \<open>parent2_id\<close> of the members in the index.
\<close>

theorem cucu_iff:
  assumes "m \<in> set family" and "mem_id m \<noteq> member_id"
    and "\<forall>m' \<in> set family. mem_id m' = mem_id m \<longrightarrow> m' = m"
    and "calculate_relationship family member_id (mem_id m) \<noteq> Some Anak"
  shows "(calculate_relationship family member_id (mem_id m) = Some Cucu \<longleftrightarrow>
           (\<exists>p q. Some p \<in> {parent1_id m, parent2_id m} \<and> p \<noteq> 0 \<and>
                  id_to_member family p = Some q \<and> parent1_id q = Some member_id)) \<and>
         is_cucu (\<lambda>k. map_option (\<lambda>q. q\<lparr>parent2_id := f q\<rparr>) (idx k)) member_id m
           = is_cucu idx member_id m"
proof
  show "calculate_relationship family member_id (mem_id m) = Some Cucu \<longleftrightarrow>
     (\<exists>p q. Some p \<in> {parent1_id m, parent2_id m} \<and> p \<noteq> 0 \<and>
            id_to_member family p = Some q \<and> parent1_id q = Some member_id)"
    using assms unfolding is_cucu_iff [symmetric]
    by (simp add: calculate_relationship_unique matched_def split: if_splits)
  show "is_cucu (\<lambda>k. map_option (\<lambda>q. q\<lparr>parent2_id := f q\<rparr>) (idx k)) member_id m
         = is_cucu idx member_id m"
    by (auto simp: is_cucu_def get_parent1_id_def list_ex_iff split: option.splits)
qed

text \<open>Scenario B: member 3, a child of member 2, is a grandchild of the subject 1.\<close>

theorem cucu_iff_witness:
  "member_D \<in> set [member_A, member_B, member_D] \<and> mem_id member_D \<noteq> 1 \<and>
   calculate_relationship [member_A, member_B, member_D] 1 (mem_id member_D) \<noteq> Some Anak \<and>
   parent1_id member_D = Some 2 \<and>
   id_to_member [member_A, member_B, member_D] 2 = Some member_B \<and>
   parent1_id member_B = Some 1 \<and>
   calculate_relationship [member_A, member_B, member_D] 1 (mem_id member_D) = Some Cucu"
proof -
  have h1: "member_D \<in> set [member_A, member_B, member_D]" by simp
  have h2: "mem_id member_D \<noteq> 1" by (simp add: member_defs)
  have h3: "\<forall>m' \<in> set [member_A, member_B, member_D]. mem_id m' = mem_id member_D \<longrightarrow> m' = member_D"
    by (simp add: member_defs)
  have h4: "calculate_relationship [member_A, member_B, member_D] 1 (mem_id member_D) \<noteq> Some Anak"
    by (simp add: calculate_relationship_def id_to_member_def relate_def rule_defs member_defs)
  have p: "parent1_id member_D = Some 2 \<and>
      id_to_member [member_A, member_B, member_D] 2 = Some member_B \<and>
      parent1_id member_B = Some 1"
    by (simp add: id_to_member_def member_defs)
  then have "\<exists>p q. Some p \<in> {parent1_id member_D, parent2_id member_D} \<and> p \<noteq> 0 \<and>
      id_to_member [member_A, member_B, member_D] p = Some q \<and> parent1_id q = Some 1"
    by (intro exI [of _ 2] exI [of _ member_B]) simp
  with cucu_iff [OF h1 h2 h3 h4] h1 h2 h4 p show ?thesis by simp
qed

section \<open>The graph\<close>

lemma add_edges_append:
  "add_edges m g =
     g @ [Edge (str_int p) (str_int (mem_id m)).
            Some p \<leftarrow> [parent1_id m, parent2_id m], p \<noteq> 0]"
  by (simp add: add_edges_def add_parent_edge_def split: option.splits)

lemma fold_add_node:
  "fold add_node family g =
     g @ map (\<lambda>m. Node (str_int (mem_id m)) (node_label m) ''box'') family"
  by (induction family arbitrary: g) (simp_all add: add_node_def)

lemma fold_add_edges:
  "fold add_edges family g =
     g @ [Edge (str_int p) (str_int (mem_id m)).
            m \<leftarrow> family, Some p \<leftarrow> [parent1_id m, parent2_id m], p \<noteq> 0]"
  by (induction family arbitrary: g) (simp_all add: add_edges_append)

lemma graph_body:
  "generate_family_tree_graph family =
     Attr ''rankdir'' ''TB'' #
     map (\<lambda>m. Node (str_int (mem_id m)) (node_label m) ''box'') family @
     [Edge (str_int p) (str_int (mem_id m)).
        m \<leftarrow> family, Some p \<leftarrow> [parent1_id m, parent2_id m], p \<noteq> 0]"
  by (simp add: generate_family_tree_graph_def fold_add_node fold_add_edges)

lemma filter_is_node_nodes:
  "filter is_node (map (\<lambda>m. Node (f m) (g m) (h m)) xs) = map (\<lambda>m. Node (f m) (g m) (h m)) xs"
  by (induction xs) auto

lemma filter_is_edge_nodes: "filter is_edge (map (\<lambda>m. Node (f m) (g m) (h m)) xs) = []"
  by (induction xs) auto

lemma filter_is_node_edges:
  "filter is_node [Edge (str_int p) (str_int (mem_id m)).
      m \<leftarrow> family, Some p \<leftarrow> [parent1_id m, parent2_id m], p \<noteq> 0] = []"
  by (induction family) (auto split: option.splits)

lemma filter_is_edge_edges:
  "filter is_edge [Edge (str_int p) (str_int (mem_id m)).
      m \<leftarrow> family, Some p \<leftarrow> [parent1_id m, parent2_id m], p \<noteq> 0]
   = [Edge (str_int p) (str_int (mem_id m)).
      m \<leftarrow> family, Some p \<leftarrow> [parent1_id m, parent2_id m], p \<noteq> 0]"
  by (induction family) (auto split: option.splits)

lemma length_edges:
  "length [Edge (str_int p) (str_int (mem_id m)).
      m \<leftarrow> family, Some p \<leftarrow> [parent1_id m, parent2_id m], p \<noteq> 0] \<le> 2 * length family"
  by (induction family) (auto split: option.splits)

lemma str_nat_nonempty: "str_nat n \<noteq> []"
  by (subst str_nat.simps) simp

lemma digit_zero:
  assumes "n < 10" and d: "digit_char n = CHR ''0''"
  shows "n = 0"
proof -
  from \<open>n < 10\<close> have "n \<in> {0, 1, 2, 3, 4, 5, 6, 7, 8, 9}"
    by (simp, arith)
  with d show "n = 0" by (auto simp: digit_char_def)
qed

lemma str_nat_zero: "str_nat n = ''0'' \<Longrightarrow> n = 0"
  by (subst (asm) str_nat.simps) (auto simp: str_nat_nonempty digit_zero split: if_splits)

lemma str_int_0: "str_int 0 = ''0''"
  by (simp add: str_int_def str_nat.simps digit_char_def)

lemma str_int_zero: "str_int 0 = str_int p \<Longrightarrow> p = 0"
proof -
  assume "str_int 0 = str_int p"
  then have "str_int p = ''0''" by (simp add: str_int_0)
  then show "p = 0" by (auto simp: str_int_def dest: str_nat_zero split: if_splits)
qed

text \<open>
  The labels of a member with the group \<open>G\<close>, of one whose group key holds \<^verbatim>\<open>None\<close>
  and of one without the group key.
\<close>

lemma node_label_examples:
  "node_label member_A = ''A'' @ [CHR 0x0A] @ ''(G)'' \<and>
   node_label member_N = ''N'' @ [CHR 0x0A] @ ''(None)'' \<and>
   node_label member_M = ''M'' @ [CHR 0x0A] @ ''()''"
  by (simp add: node_label_def member_defs)

text \<open>
  C7 (as stated). Member 0 has the first parent 5 and member 7 has the first parent 0:
  two parent references that are not null. The graph of the two members has the edge
  from 5 to 0 and no edge from 0 to 7.
\<close>

theorem graph_zero_parent_counterexample:
  "parent1_id member_Z = Some 5 \<and> parent1_id member_Y = Some 0 \<and>
   filter is_edge (generate_family_tree_graph [member_Z, member_Y]) = [Edge ''5'' ''0'']"
  by (simp add: generate_family_tree_graph_def add_node_def add_edges_def add_parent_edge_def
      str_int_def str_nat.simps digit_char_def member_defs)

text \<open>
  C7 (amended). For every member list, the nodes of the graph are, in the order of the
  list, one node per member, named by the member's id and labeled with its name, a line
  break and its group in parentheses (the empty string when the group key is absent, the
  text \<open>None\<close> when the key holds \<^verbatim>\<open>None\<close>); the
  edges are, in the order of the list, one edge from the parent to the member for each
  parent reference (\<open>parent1_id\<close>, then \<open>parent2_id\<close>) that is neither absent nor 0; so
  there are as many nodes as members and at most twice as many edges.
\<close>

theorem graph_nodes_and_edges:
  "filter is_node (generate_family_tree_graph family) =
     map (\<lambda>m. Node (str_int (mem_id m))
                 (name m @ [CHR 0x0A] @ ''('' @
                    (case anggota m of None \<Rightarrow> [] | Some JNull \<Rightarrow> ''None''
                     | Some (JText g) \<Rightarrow> g) @ '')'')
                 ''box'') family \<and>
   filter is_edge (generate_family_tree_graph family) =
     [Edge (str_int p) (str_int (mem_id m)).
        m \<leftarrow> family, Some p \<leftarrow> [parent1_id m, parent2_id m], p \<noteq> 0] \<and>
   length (filter is_node (generate_family_tree_graph family)) = length family \<and>
   length (filter is_edge (generate_family_tree_graph family)) \<le> 2 * length family"
proof -
  have n: "filter is_node (generate_family_tree_graph family) =
      map (\<lambda>m. Node (str_int (mem_id m)) (node_label m) ''box'') family"
    unfolding graph_body
    by (simp only: filter.simps filter_append is_node.simps filter_is_node_nodes
        filter_is_node_edges if_False append_Nil2)
  have e: "filter is_edge (generate_family_tree_graph family) =
      [Edge (str_int p) (str_int (mem_id m)).
         m \<leftarrow> family, Some p \<leftarrow> [parent1_id m, parent2_id m], p \<noteq> 0]"
    unfolding graph_body
    by (simp only: filter.simps filter_append is_edge.simps filter_is_edge_nodes
        filter_is_edge_edges if_False append_Nil)
  have l: "length (filter is_edge (generate_family_tree_graph family)) \<le> 2 * length family"
    unfolding e by (rule length_edges)
  have p: "(case anggota m of None \<Rightarrow> [] | Some v \<Rightarrow> py_str v) =
      (case anggota m of None \<Rightarrow> [] | Some JNull \<Rightarrow> ''None'' | Some (JText g) \<Rightarrow> g)" for m
    by (simp split: option.splits json_text.splits)
  from n e l show ?thesis by (simp add: node_label_def p)
qed

text \<open>
  C10. A parent reference with the value 0 adds no edge: the step that handles one
  parent reference leaves the graph as it is, and no graph has an edge that starts at
  the node of id 0.
\<close>

theorem graph_no_edge_from_zero:
  "add_parent_edge (Some 0) m graph = graph \<and>
   Edge (str_int 0) head \<notin> set (generate_family_tree_graph family)"
  by (auto simp: add_parent_edge_def graph_body split: option.splits dest: str_int_zero)

section \<open>Deleting a member\<close>

lemma load_data_Some: "load_data (Some xs) = xs"
  by (simp add: load_data_def)

text \<open>
  C8. For every store and every id that no stored member has, the handler answers 404
  with the error \<open>Member not found\<close> and does not save: the store is the one it was, and
  loading it again gives the same list.
\<close>

theorem delete_unknown_id:
  assumes "member_id \<notin> mem_id ` set (load_data ref)"
  shows "delete_family_member member_id ref = (Response ''error'' ''Member not found'' 404, ref) \<and>
         load_data (snd (delete_family_member member_id ref)) = load_data ref"
proof -
  have "filter (\<lambda>member. mem_id member \<noteq> member_id) (load_data ref) = load_data ref"
    using assms by (auto simp: filter_id_conv)
  then have "delete_family_member member_id ref
      = (Response ''error'' ''Member not found'' 404, ref)"
    by (simp add: delete_family_member_def Let_def)
  then show ?thesis by simp
qed

theorem delete_unknown_id_witness:
  "9 \<notin> mem_id ` set (load_data (Some [member_A, member_B, member_C])) \<and>
   delete_family_member 9 (Some [member_A, member_B, member_C])
     = (Response ''error'' ''Member not found'' 404, Some [member_A, member_B, member_C])"
proof -
  have h: "9 \<notin> mem_id ` set (load_data (Some [member_A, member_B, member_C]))"
    by (simp add: load_data_def member_defs)
  from h delete_unknown_id [OF h] show ?thesis by simp
qed

text \<open>
  C9. For every store and every id that some stored member has, the handler answers 200
  and saves the stored list without all the members of that id: the members of other ids
  stay, in their order, and no member of that id is left.
\<close>

theorem delete_removes_all:
  assumes "member_id \<in> mem_id ` set (load_data ref)"
  shows "fst (delete_family_member member_id ref)
           = Response ''message'' ''Member deleted successfully'' 200 \<and>
         load_data (snd (delete_family_member member_id ref))
           = filter (\<lambda>m. mem_id m \<noteq> member_id) (load_data ref) \<and>
         member_id \<notin> mem_id ` set (load_data (snd (delete_family_member member_id ref)))"
proof -
  have "length (filter (\<lambda>member. mem_id member \<noteq> member_id) (load_data ref))
          \<noteq> length (load_data ref)"
    using assms
    by (auto dest: length_filter_less [where P = "\<lambda>member. mem_id member \<noteq> member_id"])
  then have d: "delete_family_member member_id ref =
      (Response ''message'' ''Member deleted successfully'' 200,
       Some (filter (\<lambda>member. mem_id member \<noteq> member_id) (load_data ref)))"
    by (simp add: delete_family_member_def Let_def save_data_def)
  have l: "load_data (snd (delete_family_member member_id ref))
           = filter (\<lambda>m. mem_id m \<noteq> member_id) (load_data ref)"
    by (simp add: d load_data_Some)
  have "member_id \<notin> mem_id ` set (load_data (snd (delete_family_member member_id ref)))"
    unfolding l by auto
  with d l show ?thesis by simp
qed

text \<open>Deleting the id 1 from a store with two members of id 1 around member 2.\<close>

theorem delete_removes_all_witness:
  "1 \<in> mem_id ` set (load_data (Some [member_A, member_B, member_A2])) \<and>
   load_data (snd (delete_family_member 1 (Some [member_A, member_B, member_A2]))) = [member_B]"
proof -
  have h: "1 \<in> mem_id ` set (load_data (Some [member_A, member_B, member_A2]))"
    by (simp add: load_data_def member_defs)
  from h delete_removes_all [OF h] show ?thesis
    by (simp add: load_data_def member_defs)
qed

end
